theory Spec2Isabelle
  imports Complex_Main
begin

text \<open>
  The notebooks of the repository call library estimators and library searches; the code
  they define themselves is small. This theory models two pieces of it: the image shift
  that augments the MNIST training set, and the callback that ramps the learning rate of
  a network up by a constant factor per batch. The hyperparameter searches
  (\<open>GridSearchCV\<close>, \<open>RandomizedSearchCV\<close>) are calls into scikit-learn; the notebooks hold
  no code of their own for them, and they are not modelled here.
\<close>

section \<open>Errors raised by the notebook code\<close>

text \<open>
  The Python exceptions that the modelled functions can raise. A function that may raise
  returns \<open>py_error + 'a\<close>, with \<open>Inl\<close> for the exception. \<open>ComplexFactor\<close> is not an
  exception: it marks the one place where the model stops following the program, a power
  whose value in Python is a complex number.
\<close>

datatype py_error =
  ValueError | ZeroDivisionError | IndexError | MemoryError | OverflowError | ComplexFactor

section \<open>Two-dimensional arrays\<close>

text \<open>
  The image-shift function of the MNIST notebook works on NumPy arrays of rank two. An
  array carries its shape next to its data: a \<open>(28, 0)\<close> array and a \<open>(0, 28)\<close> array
  are both empty, and \<open>hstack\<close>, \<open>vstack\<close> and \<open>reshape\<close> tell them apart.
\<close>

record 'a ndarray =
  nrows :: nat
  ncols :: nat
  rows :: "'a list list"

text \<open>\<open>chunks r c xs\<close> cuts the first \<open>r * c\<close> elements of \<open>xs\<close> into \<open>r\<close> rows of \<open>c\<close>.\<close>

fun chunks :: "nat \<Rightarrow> nat \<Rightarrow> 'a list \<Rightarrow> 'a list list" where
  "chunks 0 c xs = []"
| "chunks (Suc r) c xs = take c xs # chunks r c (drop c xs)"

text \<open>
  \<open>v.reshape(r, c)\<close> on a vector: row-major, and a ValueError unless the sizes agree.
  A reshape of these arrays is a view and allocates nothing.
\<close>

definition reshape2 :: "nat \<Rightarrow> nat \<Rightarrow> 'a list \<Rightarrow> py_error + 'a ndarray" where
  "reshape2 r c xs =
     (if length xs = r * c then Inr \<lparr>nrows = r, ncols = c, rows = chunks r c xs\<rparr>
      else Inl ValueError)"

text \<open>\<open>a.reshape(n)\<close> on an array of rank two: the rows one after the other.\<close>

definition reshape1 :: "nat \<Rightarrow> 'a ndarray \<Rightarrow> py_error + 'a list" where
  "reshape1 n a = (if nrows a * ncols a = n then Inr (concat (rows a)) else Inl ValueError)"

text \<open>
  NumPy allocates every new array, and the allocation raises when the machine or the
  library refuses the size: MemoryError, or for some sizes ValueError. When it does so
  depends on the machine, so it is a parameter of the model: \<open>alloc r c\<close> is the
  exception that the allocation of an array of shape \<open>(r, c)\<close> raises, or \<open>None\<close> when the
  allocation succeeds.
\<close>

type_synonym allocator = "nat \<Rightarrow> nat \<Rightarrow> py_error option"

definition zeros :: "allocator \<Rightarrow> nat \<Rightarrow> nat \<Rightarrow> py_error + ('a::zero) ndarray" where
  "zeros alloc r c =
     (case alloc r c of
        Some e \<Rightarrow> Inl e
      | None \<Rightarrow> Inr \<lparr>nrows = r, ncols = c, rows = replicate r (replicate c 0)\<rparr>)"

text \<open>
  \<open>np.hstack((a, b))\<close> joins along the columns and needs equal row counts;
  \<open>np.vstack((a, b))\<close> joins along the rows and needs equal column counts. Both raise
  ValueError otherwise, also when one of the arrays has no element. The shapes are checked
  first; then the result is allocated.
\<close>

definition hstack :: "allocator \<Rightarrow> 'a ndarray \<Rightarrow> 'a ndarray \<Rightarrow> py_error + 'a ndarray" where
  "hstack alloc a b =
     (if nrows a \<noteq> nrows b then Inl ValueError
      else case alloc (nrows a) (ncols a + ncols b) of
             Some e \<Rightarrow> Inl e
           | None \<Rightarrow> Inr \<lparr>nrows = nrows a, ncols = ncols a + ncols b,
                            rows = map2 (@) (rows a) (rows b)\<rparr>)"

definition vstack :: "allocator \<Rightarrow> 'a ndarray \<Rightarrow> 'a ndarray \<Rightarrow> py_error + 'a ndarray" where
  "vstack alloc a b =
     (if ncols a \<noteq> ncols b then Inl ValueError
      else case alloc (nrows a + nrows b) (ncols a) of
             Some e \<Rightarrow> Inl e
           | None \<Rightarrow> Inr \<lparr>nrows = nrows a + nrows b, ncols = ncols a,
                            rows = rows a @ rows b\<rparr>)"

text \<open>
  A slice bound of Python on an axis of length \<open>n\<close>: a negative bound counts from the
  end, and every bound is clipped to \<open>0 .. n\<close>.
\<close>

definition slice_bound :: "nat \<Rightarrow> int \<Rightarrow> nat" where
  "slice_bound n i = (if i < 0 then nat (max 0 (int n + i)) else min (nat i) n)"

text \<open>The four slices the function takes: \<open>a[:, :stop]\<close>, \<open>a[:, start:]\<close>,
  \<open>a[start:, :]\<close> and \<open>a[:stop, :]\<close>. A slice is a view and allocates nothing.\<close>

definition cols_until :: "'a ndarray \<Rightarrow> int \<Rightarrow> 'a ndarray" where
  "cols_until a stop =
     (let k = slice_bound (ncols a) stop
      in \<lparr>nrows = nrows a, ncols = k, rows = map (take k) (rows a)\<rparr>)"

definition cols_from :: "'a ndarray \<Rightarrow> int \<Rightarrow> 'a ndarray" where
  "cols_from a start =
     (let k = slice_bound (ncols a) start
      in \<lparr>nrows = nrows a, ncols = ncols a - k, rows = map (drop k) (rows a)\<rparr>)"

definition rows_from :: "'a ndarray \<Rightarrow> int \<Rightarrow> 'a ndarray" where
  "rows_from a start =
     (let k = slice_bound (nrows a) start
      in \<lparr>nrows = nrows a - k, ncols = ncols a, rows = drop k (rows a)\<rparr>)"

definition rows_until :: "'a ndarray \<Rightarrow> int \<Rightarrow> 'a ndarray" where
  "rows_until a stop =
     (let k = slice_bound (nrows a) stop
      in \<lparr>nrows = k, ncols = ncols a, rows = take k (rows a)\<rparr>)"

section \<open>The image shift of the MNIST notebook\<close>

text \<open>
  \<^verbatim>\<open>
  def shift(image_data, direction=(0, 0)):
      image = image_data.reshape(28, 28)
      if direction[0] > 0:
          image = np.hstack((np.zeros((28, abs(direction[0]))), image[:, : -direction[0]]))
      elif direction[0] < 0:
          image = np.hstack((image[:, -direction[0] :], np.zeros((28, abs(direction[0])))))
      if direction[1] > 0:
          image = np.vstack((image[direction[1] :, :], np.zeros((abs(direction[1]), 28))))
      elif direction[1] < 0:
          image = np.vstack((np.zeros((abs(direction[1]), 28)), image[: direction[1], :]))
      return image.reshape(784)
  \<close>
  The two steps are kept apart as \<open>shift_horizontal\<close> and \<open>shift_vertical\<close>; \<open>shift\<close>
  runs them in the order of the source and stops at the first exception. In each step
  \<open>np.zeros\<close> is the only call besides the stacking that can raise, so it does not matter
  whether it runs before or after the slice.
\<close>

definition shift_horizontal ::
  "allocator \<Rightarrow> ('a::zero) ndarray \<Rightarrow> int \<Rightarrow> py_error + 'a ndarray" where
  "shift_horizontal alloc img d =
     (if d > 0 then
        (case zeros alloc 28 (nat \<bar>d\<bar>) of
           Inl e \<Rightarrow> Inl e
         | Inr z \<Rightarrow> hstack alloc z (cols_until img (- d)))
      else if d < 0 then
        (case zeros alloc 28 (nat \<bar>d\<bar>) of
           Inl e \<Rightarrow> Inl e
         | Inr z \<Rightarrow> hstack alloc (cols_from img (- d)) z)
      else Inr img)"

definition shift_vertical ::
  "allocator \<Rightarrow> ('a::zero) ndarray \<Rightarrow> int \<Rightarrow> py_error + 'a ndarray" where
  "shift_vertical alloc img d =
     (if d > 0 then
        (case zeros alloc (nat \<bar>d\<bar>) 28 of
           Inl e \<Rightarrow> Inl e
         | Inr z \<Rightarrow> vstack alloc (rows_from img d) z)
      else if d < 0 then
        (case zeros alloc (nat \<bar>d\<bar>) 28 of
           Inl e \<Rightarrow> Inl e
         | Inr z \<Rightarrow> vstack alloc z (rows_until img d))
      else Inr img)"

definition shift :: "allocator \<Rightarrow> ('a::zero) list \<Rightarrow> int \<times> int \<Rightarrow> py_error + 'a list" where
  "shift alloc image_data direction =
     (case reshape2 28 28 image_data of
        Inl e \<Rightarrow> Inl e
      | Inr img \<Rightarrow>
          (case shift_horizontal alloc img (fst direction) of
             Inl e \<Rightarrow> Inl e
           | Inr img1 \<Rightarrow>
               (case shift_vertical alloc img1 (snd direction) of
                  Inl e \<Rightarrow> Inl e
                | Inr img2 \<Rightarrow> reshape1 784 img2)))"

text \<open>
  The arrays that the function builds are rectangular: as many rows as \<open>nrows\<close> says,
  each of \<open>ncols\<close> elements.
\<close>

definition well_shaped :: "'a ndarray \<Rightarrow> bool" where
  "well_shaped a \<longleftrightarrow> length (rows a) = nrows a \<and> list_all (\<lambda>r. length r = ncols a) (rows a)"


text \<open>A machine that grants every array of at most \<open>n\<close> elements and no other.\<close>

definition grants_up_to :: "nat \<Rightarrow> allocator" where
  "grants_up_to n r c = (if r * c \<le> n then None else Some MemoryError)"

section \<open>The learning-rate ramp callback\<close>

text \<open>
  The callback computes with floating-point numbers: Python floats in the constructor, the
  optimizer's single-precision variable, and NumPy scalars for the product. What these
  operations return, rounding included, is not fixed here: the type \<open>'f\<close> of the numbers
  and the operations on it are parameters of the model, and the properties below hold
  for every choice of them.
  \<^item> \<open>fdiv\<close>, \<open>recip\<close> and \<open>fpow\<close> are \<open>end_lr / starting_lr\<close>, \<open>1 / n_iter\<close> and \<open>**\<close> of
    the constructor, each with the exception it may raise
    (ZeroDivisionError, OverflowError); a power whose value is a complex number is
    returned as \<open>ComplexFactor\<close> and not followed further.
  \<^item> \<open>fmul\<close> is the product \<open>learning_rate.numpy() * factor\<close>, and \<open>exceeds\<close> the test
    \<open>lr > end_lr\<close>.
  \<^item> \<open>store32\<close> is what the optimizer's variable holds, and \<open>.numpy()\<close> reads back, after
    a number is assigned to it.
  \<^item> \<open>loss_less\<close> is the comparison by which \<open>np.argmin\<close> replaces its current minimum.
\<close>

record 'f float_ops =
  fdiv :: "'f \<Rightarrow> 'f \<Rightarrow> py_error + 'f"
  recip :: "int \<Rightarrow> py_error + 'f"
  fpow :: "'f \<Rightarrow> 'f \<Rightarrow> py_error + 'f"
  fmul :: "'f \<Rightarrow> 'f \<Rightarrow> 'f"
  exceeds :: "'f \<Rightarrow> 'f \<Rightarrow> bool"
  store32 :: "'f \<Rightarrow> 'f"
  loss_less :: "'f \<Rightarrow> 'f \<Rightarrow> bool"

text \<open>
  What the callback reads and writes of the model it is attached to:
  \<open>model.optimizer.learning_rate\<close> and \<open>model.stop_training\<close>.
\<close>

record 'f keras_model =
  learning_rate :: 'f
  stop_training :: bool

text \<open>
  \<^verbatim>\<open>
  class ExponentialLearningRate(tf.keras.callbacks.Callback):
      def __init__(self, starting_lr, end_lr, n_iter):
          self.factor = (end_lr / starting_lr) ** (1 / n_iter)
          self.starting_lr = starting_lr
          self.end_lr = end_lr
          self.learning_rates = []
          self.losses = []

      def on_train_begin(self, logs=None):
          self.model.optimizer.learning_rate = self.starting_lr

      def on_train_batch_end(self, batch, logs=None):
          lr = self.model.optimizer.learning_rate.numpy() * self.factor
          if lr > self.end_lr:
              self.model.stop_training = True

          self.model.optimizer.learning_rate = lr
          self.learning_rates.append(lr)
          self.losses.append(logs["loss"])
  \<close>
\<close>

record 'f ExponentialLearningRate =
  factor :: 'f
  starting_lr :: 'f
  end_lr :: 'f
  learning_rates :: "'f list"
  losses :: "'f list"

definition ExponentialLearningRate_init ::
  "'f float_ops \<Rightarrow> 'f \<Rightarrow> 'f \<Rightarrow> int \<Rightarrow> py_error + 'f ExponentialLearningRate" where
  "ExponentialLearningRate_init ops starting_lr' end_lr' n_iter =
     (case fdiv ops end_lr' starting_lr' of
        Inl err \<Rightarrow> Inl err
      | Inr ratio \<Rightarrow>
          (case recip ops n_iter of
             Inl err \<Rightarrow> Inl err
           | Inr exponent \<Rightarrow>
               (case fpow ops ratio exponent of
                  Inl err \<Rightarrow> Inl err
                | Inr f \<Rightarrow> Inr \<lparr>factor = f, starting_lr = starting_lr', end_lr = end_lr',
                               learning_rates = [], losses = []\<rparr>)))"

definition on_train_begin ::
  "'f float_ops \<Rightarrow> 'f ExponentialLearningRate \<Rightarrow> 'f keras_model \<Rightarrow> 'f keras_model" where
  "on_train_begin ops self model = model\<lparr>learning_rate := store32 ops (starting_lr self)\<rparr>"

text \<open>
  The argument \<open>loss\<close> is \<open>logs["loss"]\<close>; the batch number is not used. The list gets
  the product \<open>lr\<close> itself, the optimizer what is left of it in its variable.
\<close>

definition on_train_batch_end ::
  "'f float_ops \<Rightarrow> 'f ExponentialLearningRate \<Rightarrow> 'f keras_model \<Rightarrow> 'f
     \<Rightarrow> 'f ExponentialLearningRate \<times> 'f keras_model" where
  "on_train_batch_end ops self model loss =
     (let lr = fmul ops (learning_rate model) (factor self);
          model1 = (if exceeds ops lr (end_lr self) then model\<lparr>stop_training := True\<rparr>
                    else model)
      in (self\<lparr>learning_rates := learning_rates self @ [lr], losses := losses self @ [loss]\<rparr>,
          model1\<lparr>learning_rate := store32 ops lr\<rparr>))"

text \<open>
  The second notebook that defines the class prints a report before it sets the flag:
  \<^verbatim>\<open>
          if lr > self.end_lr:
              print(
                  "\nReached end learning rate, stopping training",
                  f"Learning rate of minimum loss: {self.learning_rates[np.argmin(self.losses)]}",
                  sep="\n",
              )
              self.model.stop_training = True
  \<close>
  \<open>np.argmin\<close> raises ValueError on an empty sequence; otherwise it scans the sequence
  once and returns the index of the last element that replaced its current minimum.
  Indexing the list beyond its end raises IndexError.
\<close>

fun argmin_scan :: "('f \<Rightarrow> 'f \<Rightarrow> bool) \<Rightarrow> 'f \<Rightarrow> nat \<Rightarrow> nat \<Rightarrow> 'f list \<Rightarrow> nat" where
  "argmin_scan lt best best_index i [] = best_index"
| "argmin_scan lt best best_index i (x # xs) =
     (if lt x best then argmin_scan lt x i (Suc i) xs
      else argmin_scan lt best best_index (Suc i) xs)"

definition np_argmin :: "('f \<Rightarrow> 'f \<Rightarrow> bool) \<Rightarrow> 'f list \<Rightarrow> py_error + nat" where
  "np_argmin lt xs =
     (case xs of [] \<Rightarrow> Inl ValueError | x # rest \<Rightarrow> Inr (argmin_scan lt x 0 1 rest))"

definition minimum_loss_rate ::
  "'f float_ops \<Rightarrow> 'f ExponentialLearningRate \<Rightarrow> py_error + 'f" where
  "minimum_loss_rate ops self =
     (case np_argmin (loss_less ops) (losses self) of
        Inl err \<Rightarrow> Inl err
      | Inr i \<Rightarrow>
          if i < length (learning_rates self) then Inr (learning_rates self ! i)
          else Inl IndexError)"

definition on_train_batch_end_verbose ::
  "'f float_ops \<Rightarrow> 'f ExponentialLearningRate \<Rightarrow> 'f keras_model \<Rightarrow> 'f
     \<Rightarrow> py_error + 'f ExponentialLearningRate \<times> 'f keras_model" where
  "on_train_batch_end_verbose ops self model loss =
     (let lr = fmul ops (learning_rate model) (factor self)
      in case (if exceeds ops lr (end_lr self)
               then (case minimum_loss_rate ops self of
                       Inl err \<Rightarrow> Inl err
                     | Inr _ \<Rightarrow> Inr (model\<lparr>stop_training := True\<rparr>))
               else Inr model) of
           Inl err \<Rightarrow> Inl err
         | Inr model1 \<Rightarrow>
             Inr (self\<lparr>learning_rates := learning_rates self @ [lr],
                       losses := losses self @ [loss]\<rparr>,
                  model1\<lparr>learning_rate := store32 ops lr\<rparr>))"

text \<open>
  The training loop is the framework's \<open>model.fit\<close>, not code of the notebooks. The model
  keeps the part of it that the callback relies on: \<open>fit\<close> clears \<open>stop_training\<close>, calls
  \<open>on_train_begin\<close> once, calls \<open>on_train_batch_end\<close> after every batch, and leaves the
  loop after the first batch at whose end \<open>stop_training\<close> is set. The list
  \<open>batch_losses\<close> holds the loss of each batch that training would run through, over
  all epochs. An exception of the callback ends \<open>fit\<close> with that exception.
\<close>

fun train_batches ::
  "'f float_ops \<Rightarrow> 'f ExponentialLearningRate \<Rightarrow> 'f keras_model \<Rightarrow> 'f list
     \<Rightarrow> 'f ExponentialLearningRate \<times> 'f keras_model" where
  "train_batches ops self model [] = (self, model)"
| "train_batches ops self model (loss # rest) =
     (case on_train_batch_end ops self model loss of
        (self1, model1) \<Rightarrow>
          if stop_training model1 then (self1, model1)
          else train_batches ops self1 model1 rest)"

definition fit ::
  "'f float_ops \<Rightarrow> 'f ExponentialLearningRate \<Rightarrow> 'f keras_model \<Rightarrow> 'f list
     \<Rightarrow> 'f ExponentialLearningRate \<times> 'f keras_model" where
  "fit ops self model batch_losses =
     train_batches ops self (on_train_begin ops self (model\<lparr>stop_training := False\<rparr>))
       batch_losses"

fun train_batches_verbose ::
  "'f float_ops \<Rightarrow> 'f ExponentialLearningRate \<Rightarrow> 'f keras_model \<Rightarrow> 'f list
     \<Rightarrow> py_error + 'f ExponentialLearningRate \<times> 'f keras_model" where
  "train_batches_verbose ops self model [] = Inr (self, model)"
| "train_batches_verbose ops self model (loss # rest) =
     (case on_train_batch_end_verbose ops self model loss of
        Inl err \<Rightarrow> Inl err
      | Inr (self1, model1) \<Rightarrow>
          if stop_training model1 then Inr (self1, model1)
          else train_batches_verbose ops self1 model1 rest)"

definition fit_verbose ::
  "'f float_ops \<Rightarrow> 'f ExponentialLearningRate \<Rightarrow> 'f keras_model \<Rightarrow> 'f list
     \<Rightarrow> py_error + 'f ExponentialLearningRate \<times> 'f keras_model" where
  "fit_verbose ops self model batch_losses =
     train_batches_verbose ops self
       (on_train_begin ops self (model\<lparr>stop_training := False\<rparr>)) batch_losses"

text \<open>
  The rates that a run of \<open>fit\<close> has added to the callback's list, and the flag at
  its end.
\<close>

definition recorded ::
  "'f float_ops \<Rightarrow> 'f ExponentialLearningRate \<Rightarrow> 'f keras_model \<Rightarrow> 'f list \<Rightarrow> 'f list" where
  "recorded ops self model batch_losses =
     drop (length (learning_rates self)) (learning_rates (fst (fit ops self model batch_losses)))"

definition stopped ::
  "'f float_ops \<Rightarrow> 'f ExponentialLearningRate \<Rightarrow> 'f keras_model \<Rightarrow> 'f list \<Rightarrow> bool" where
  "stopped ops self model batch_losses = stop_training (snd (fit ops self model batch_losses))"

text \<open>
  Arithmetic without rounding, on the reals. Python's floats agree with it on an input
  where every number that occurs can be represented in single precision, as the powers
  of two of the examples below can.
\<close>

definition exact_pow :: "real \<Rightarrow> real \<Rightarrow> py_error + real" where
  "exact_pow x y =
     (if y = 0 then Inr 1
      else if 0 < x then Inr (x powr y)
      else if x = 0 then (if y < 0 then Inl ZeroDivisionError else Inr 0)
      else if of_int \<lfloor>y\<rfloor> = y then Inr (x powi \<lfloor>y\<rfloor>)
      else Inl ComplexFactor)"

definition exact_ops :: "real float_ops" where
  "exact_ops =
     \<lparr>fdiv = (\<lambda>a b. if b = 0 then Inl ZeroDivisionError else Inr (a / b)),
      recip = (\<lambda>n. if n = 0 then Inl ZeroDivisionError else Inr (1 / of_int n)),
      fpow = exact_pow,
      fmul = (\<lambda>a b. a * b),
      exceeds = (\<lambda>a b. a > b),
      store32 = (\<lambda>a. a),
      loss_less = (\<lambda>a b. a < b)\<rparr>"

section \<open>Properties of the array operations\<close>

lemma concat_chunks: "length xs = r * c \<Longrightarrow> concat (chunks r c xs) = xs"
  by (induction r arbitrary: xs) auto

lemma length_chunks: "length (chunks r c xs) = r"
  by (induction r arbitrary: xs) auto

lemma chunks_row_length:
  "length xs = r * c \<Longrightarrow> list_all (\<lambda>row. length row = c) (chunks r c xs)"
  by (induction r arbitrary: xs) auto

lemma length_concat_rows:
  "list_all (\<lambda>r. length r = c) rs \<Longrightarrow> length (concat rs) = length rs * c"
  by (induction rs) auto

lemma well_shaped_size: "well_shaped a \<Longrightarrow> length (concat (rows a)) = nrows a * ncols a"
  by (auto simp: well_shaped_def dest: length_concat_rows)

lemma slice_bound_le: "slice_bound n i \<le> n"
  unfolding slice_bound_def by (cases "i < 0") auto

lemma reshape2_ok:
  "length xs = r * c \<Longrightarrow>
   \<exists>a. reshape2 r c xs = Inr a \<and> nrows a = r \<and> ncols a = c \<and> well_shaped a
     \<and> concat (rows a) = xs"
  by (simp add: reshape2_def well_shaped_def length_chunks chunks_row_length concat_chunks)

lemma zeros_result:
  "zeros alloc r c = Inr z \<Longrightarrow> nrows z = r \<and> ncols z = c \<and> well_shaped z"
  by (auto simp: zeros_def well_shaped_def list_all_length split: option.splits)

lemma well_shaped_cols_until: "well_shaped a \<Longrightarrow> well_shaped (cols_until a i)"
  using slice_bound_le [of "ncols a" i]
  by (auto simp: cols_until_def well_shaped_def Let_def list_all_length)

lemma well_shaped_cols_from: "well_shaped a \<Longrightarrow> well_shaped (cols_from a i)"
  by (auto simp: cols_from_def well_shaped_def Let_def list_all_length)

lemma well_shaped_rows_from: "well_shaped a \<Longrightarrow> well_shaped (rows_from a i)"
  by (auto simp: rows_from_def well_shaped_def Let_def list_all_length)

lemma well_shaped_rows_until: "well_shaped a \<Longrightarrow> well_shaped (rows_until a i)"
  using slice_bound_le [of "nrows a" i]
  by (auto simp: rows_until_def well_shaped_def Let_def list_all_length)

lemma hstack_result:
  "well_shaped a \<Longrightarrow> well_shaped b \<Longrightarrow> hstack alloc a b = Inr c \<Longrightarrow>
   well_shaped c \<and> nrows c = nrows a \<and> nrows a = nrows b \<and> ncols c = ncols a + ncols b"
  by (auto simp: hstack_def well_shaped_def list_all_length split: if_splits option.splits)

lemma vstack_result:
  "well_shaped a \<Longrightarrow> well_shaped b \<Longrightarrow> vstack alloc a b = Inr c \<Longrightarrow>
   well_shaped c \<and> ncols c = ncols a \<and> ncols a = ncols b \<and> nrows c = nrows a + nrows b"
  by (auto simp: vstack_def well_shaped_def split: if_splits option.splits)

lemma cols_until_shape:
  "nrows (cols_until a i) = nrows a \<and> ncols (cols_until a i) = slice_bound (ncols a) i"
  by (simp add: cols_until_def Let_def)

lemma cols_from_shape:
  "nrows (cols_from a i) = nrows a \<and> ncols (cols_from a i) = ncols a - slice_bound (ncols a) i"
  by (simp add: cols_from_def Let_def)

lemma rows_from_shape:
  "ncols (rows_from a i) = ncols a \<and> nrows (rows_from a i) = nrows a - slice_bound (nrows a) i"
  by (simp add: rows_from_def Let_def)

lemma rows_until_shape:
  "ncols (rows_until a i) = ncols a \<and> nrows (rows_until a i) = slice_bound (nrows a) i"
  by (simp add: rows_until_def Let_def)

text \<open>The shape of whatever the two steps return.\<close>

lemma shift_horizontal_result:
  assumes a: "nrows a = 28" "ncols a = 28" "well_shaped a"
    and b: "shift_horizontal alloc a d = Inr b"
  shows "nrows b = 28 \<and> well_shaped b \<and> ncols b = (if \<bar>d\<bar> \<le> 28 then 28 else nat \<bar>d\<bar>)"
proof -
  consider "d > 0" | "d < 0" | "d = 0" by linarith
  then show ?thesis
  proof cases
    case 1
    with b obtain z where z: "zeros alloc 28 (nat \<bar>d\<bar>) = Inr z"
      and h: "hstack alloc z (cols_until a (- d)) = Inr b"
      by (auto simp: shift_horizontal_def split: sum.splits)
    from hstack_result [OF _ well_shaped_cols_until [OF a(3)] h] zeros_result [OF z]
    have "well_shaped b" "nrows b = 28" "ncols b = nat \<bar>d\<bar> + slice_bound 28 (- d)"
      by (simp_all add: cols_until_shape a)
    then show ?thesis using 1 by (auto simp: slice_bound_def)
  next
    case 2
    with b obtain z where z: "zeros alloc 28 (nat \<bar>d\<bar>) = Inr z"
      and h: "hstack alloc (cols_from a (- d)) z = Inr b"
      by (auto simp: shift_horizontal_def split: sum.splits)
    from hstack_result [OF well_shaped_cols_from [OF a(3)] _ h] zeros_result [OF z]
    have "well_shaped b" "nrows b = 28" "ncols b = 28 - slice_bound 28 (- d) + nat \<bar>d\<bar>"
      by (simp_all add: cols_from_shape a)
    then show ?thesis using 2 by (auto simp: slice_bound_def)
  next
    case 3
    with a b show ?thesis by (simp add: shift_horizontal_def)
  qed
qed

lemma shift_vertical_result:
  assumes a: "nrows a = 28" "well_shaped a"
    and b: "shift_vertical alloc a d = Inr b"
  shows "well_shaped b \<and> ncols b = ncols a \<and> (d \<noteq> 0 \<longrightarrow> ncols a = 28)
           \<and> nrows b = (if \<bar>d\<bar> \<le> 28 then 28 else nat \<bar>d\<bar>)"
proof -
  consider "d > 0" | "d < 0" | "d = 0" by linarith
  then show ?thesis
  proof cases
    case 1
    with b obtain z where z: "zeros alloc (nat \<bar>d\<bar>) 28 = Inr z"
      and h: "vstack alloc (rows_from a d) z = Inr b"
      by (auto simp: shift_vertical_def split: sum.splits)
    from vstack_result [OF well_shaped_rows_from [OF a(2)] _ h] zeros_result [OF z]
    have "well_shaped b" "ncols b = ncols a" "ncols a = 28"
      "nrows b = 28 - slice_bound 28 d + nat \<bar>d\<bar>"
      by (simp_all add: rows_from_shape a)
    then show ?thesis using 1 by (auto simp: slice_bound_def)
  next
    case 2
    with b obtain z where z: "zeros alloc (nat \<bar>d\<bar>) 28 = Inr z"
      and h: "vstack alloc z (rows_until a d) = Inr b"
      by (auto simp: shift_vertical_def split: sum.splits)
    from vstack_result [OF _ well_shaped_rows_until [OF a(2)] h] zeros_result [OF z]
    have "well_shaped b" "ncols b = ncols a" "ncols a = 28"
      "nrows b = nat \<bar>d\<bar> + slice_bound 28 d"
      by (simp_all add: rows_until_shape a)
    then show ?thesis using 2 by (auto simp: slice_bound_def)
  next
    case 3
    with a b show ?thesis by (simp add: shift_vertical_def)
  qed
qed

text \<open>When arrays of up to 784 elements can be allocated, a step of at most 28 succeeds.\<close>

lemma shift_horizontal_ok:
  assumes a: "nrows a = 28" "ncols a = 28" and d: "\<bar>d\<bar> \<le> 28"
    and room: "\<forall>r c. r * c \<le> 784 \<longrightarrow> alloc r c = None"
  shows "\<exists>b. shift_horizontal alloc a d = Inr b"
proof -
  from d have "28 * nat \<bar>d\<bar> \<le> 784" by simp
  with room have "alloc 28 (nat \<bar>d\<bar>) = None" by blast
  then obtain z :: "'a ndarray" where z: "zeros alloc 28 (nat \<bar>d\<bar>) = Inr z"
    "nrows z = 28" "ncols z = nat \<bar>d\<bar>"
    by (simp add: zeros_def)
  from room have s: "alloc 28 28 = None" by simp
  consider "d > 0" | "d < 0" | "d = 0" by linarith
  then show ?thesis
  proof cases
    case 1
    with d have "ncols z + ncols (cols_until a (- d)) = 28"
      by (simp add: z cols_until_shape a slice_bound_def)
    with 1 z s show ?thesis
      by (simp add: shift_horizontal_def hstack_def cols_until_shape a)
  next
    case 2
    with d have "ncols (cols_from a (- d)) + ncols z = 28"
      by (simp add: z cols_from_shape a slice_bound_def)
    with 2 z s show ?thesis
      by (simp add: shift_horizontal_def hstack_def cols_from_shape a)
  next
    case 3
    then show ?thesis by (simp add: shift_horizontal_def)
  qed
qed

lemma shift_vertical_ok:
  assumes a: "nrows a = 28" "ncols a = 28" and d: "\<bar>d\<bar> \<le> 28"
    and room: "\<forall>r c. r * c \<le> 784 \<longrightarrow> alloc r c = None"
  shows "\<exists>b. shift_vertical alloc a d = Inr b"
proof -
  from d have "nat \<bar>d\<bar> * 28 \<le> 784" by simp
  with room have "alloc (nat \<bar>d\<bar>) 28 = None" by blast
  then obtain z :: "'a ndarray" where z: "zeros alloc (nat \<bar>d\<bar>) 28 = Inr z"
    "nrows z = nat \<bar>d\<bar>" "ncols z = 28"
    by (simp add: zeros_def)
  from room have s: "alloc 28 28 = None" by simp
  consider "d > 0" | "d < 0" | "d = 0" by linarith
  then show ?thesis
  proof cases
    case 1
    with d have "nrows (rows_from a d) + nrows z = 28"
      by (simp add: z rows_from_shape a slice_bound_def)
    with 1 z s show ?thesis
      by (simp add: shift_vertical_def vstack_def rows_from_shape a)
  next
    case 2
    with d have "nrows z + nrows (rows_until a d) = 28"
      by (simp add: z rows_until_shape a slice_bound_def)
    with 2 z s show ?thesis
      by (simp add: shift_vertical_def vstack_def rows_until_shape a)
  next
    case 3
    then show ?thesis by (simp add: shift_vertical_def)
  qed
qed

lemma shift_returns_784:
  assumes "shift alloc xs d = Inr v"
  shows "length xs = 784 \<and> length v = 784 \<and> \<bar>fst d\<bar> \<le> 28 \<and> \<bar>snd d\<bar> \<le> 28"
proof -
  from assms have len: "length xs = 28 * 28"
    by (auto simp: shift_def reshape2_def split: if_splits)
  from reshape2_ok [OF len] obtain a where
    a: "reshape2 28 28 xs = Inr a" "nrows a = 28" "ncols a = 28" "well_shaped a"
    by blast
  from assms a obtain b where b: "shift_horizontal alloc a (fst d) = Inr b"
    by (auto simp: shift_def split: sum.splits)
  from assms a b obtain c where c: "shift_vertical alloc b (snd d) = Inr c"
    and v: "reshape1 784 c = Inr v"
    by (auto simp: shift_def split: sum.splits)
  note hb = shift_horizontal_result [OF a(2,3,4) b]
  from hb have b28: "nrows b = 28" "well_shaped b" by simp_all
  note hc = shift_vertical_result [OF b28 c]
  from v have size: "nrows c * ncols c = 784" and vv: "v = concat (rows c)"
    by (auto simp: reshape1_def split: if_splits)
  from hc well_shaped_size [of c] size vv have lv: "length v = 784" by simp
  have "\<bar>fst d\<bar> \<le> 28 \<and> \<bar>snd d\<bar> \<le> 28"
  proof (rule ccontr)
    assume far: "\<not> (\<bar>fst d\<bar> \<le> 28 \<and> \<bar>snd d\<bar> \<le> 28)"
    have r: "28 \<le> nrows c" using hc by (simp split: if_splits)
    have k: "28 \<le> ncols c" using hb hc by (simp split: if_splits)
    from far hb hc have "28 < nrows c \<or> 28 < ncols c" by (auto split: if_splits)
    then have "784 < nrows c * ncols c"
    proof
      assume "28 < nrows c"
      then have "29 * 28 \<le> nrows c * ncols c" using k by (intro mult_le_mono) simp_all
      then show ?thesis by simp
    next
      assume "28 < ncols c"
      then have "28 * 29 \<le> nrows c * ncols c" using r by (intro mult_le_mono) simp_all
      then show ?thesis by simp
    qed
    with size show False by simp
  qed
  with len lv show ?thesis by simp
qed

lemma shift_in_range:
  assumes len: "length xs = 784" and dx: "\<bar>dx\<bar> \<le> 28" and dy: "\<bar>dy\<bar> \<le> 28"
    and room: "\<forall>r c. r * c \<le> 784 \<longrightarrow> alloc r c = None"
  shows "\<exists>v. shift alloc xs (dx, dy) = Inr v \<and> length v = 784"
proof -
  from len have "length xs = 28 * 28" by simp
  from reshape2_ok [OF this] obtain a where
    a: "reshape2 28 28 xs = Inr a" "nrows a = 28" "ncols a = 28" "well_shaped a"
    by blast
  from shift_horizontal_ok [OF a(2,3) dx room] obtain b where
    b: "shift_horizontal alloc a dx = Inr b" ..
  from shift_horizontal_result [OF a(2,3,4) b] dx
  have b28: "nrows b = 28" "ncols b = 28" "well_shaped b" by simp_all
  from shift_vertical_ok [OF b28(1,2) dy room] obtain c where
    c: "shift_vertical alloc b dy = Inr c" ..
  from shift_vertical_result [OF b28(1,3) c] dy b28
  have c28: "nrows c = 28" "ncols c = 28" by simp_all
  have "shift alloc xs (dx, dy) = Inr (concat (rows c))"
    by (simp add: shift_def a b c c28 reshape1_def)
  with shift_returns_784 [of alloc xs "(dx, dy)" "concat (rows c)"] show ?thesis by simp
qed

lemma shift_out_of_range:
  assumes far: "28 < \<bar>dx\<bar> \<or> 28 < \<bar>dy\<bar>"
  shows "isl (shift alloc xs (dx, dy))"
proof (cases "shift alloc xs (dx, dy)")
  case (Inl e)
  then show ?thesis by simp
next
  case (Inr v)
  from shift_returns_784 [OF this] far show ?thesis by auto
qed

lemma shift_zero:
  assumes len: "length xs = 784"
  shows "shift alloc xs (0, 0) = Inr xs"
proof -
  from len have "length xs = 28 * 28" by simp
  from reshape2_ok [OF this] obtain a where
    a: "reshape2 28 28 xs = Inr a" "nrows a = 28" "ncols a = 28" "concat (rows a) = xs"
    by blast
  then show ?thesis
    by (simp add: shift_def shift_horizontal_def shift_vertical_def reshape1_def)
qed

lemma shift_bad_input: "length xs \<noteq> 784 \<Longrightarrow> shift alloc xs d = Inl ValueError"
  by (simp add: shift_def reshape2_def)

text \<open>
  Which exception a shift beyond the image raises depends on the machine: the zeros may
  not fit into memory, and if they do, the stacked array has the wrong size.
\<close>

lemma grants_up_to_room:
  "784 \<le> n \<Longrightarrow> \<forall>r c. r * c \<le> 784 \<longrightarrow> grants_up_to n r c = None"
  by (simp add: grants_up_to_def)

lemma shift_huge_direction_memory:
  "shift (grants_up_to 1000000) (replicate 784 (0::int)) (2 ^ 40, 0) = Inl MemoryError"
  by (simp add: shift_def reshape2_def shift_horizontal_def zeros_def grants_up_to_def)

section \<open>Properties of the image shift\<close>

text \<open>
  C9 (as amended). For every image vector of 784 elements, the shift by \<open>(0, 0)\<close>
  returns the vector itself. For a direction \<open>(dx, dy)\<close> with \<open>\<bar>dx\<bar> \<le> 28\<close> and
  \<open>\<bar>dy\<bar> \<le> 28\<close> the function returns a vector of exactly 784 elements, given that
  arrays of up to 784 elements (the size of the image itself) can be allocated. For every
  other direction it returns no vector: it raises.
\<close>

theorem shift_identity_and_size:
  assumes "length image_data = 784"
  shows "shift alloc image_data (0, 0) = Inr image_data
       \<and> (\<bar>dx\<bar> \<le> 28 \<and> \<bar>dy\<bar> \<le> 28 \<and> (\<forall>r c. r * c \<le> 784 \<longrightarrow> alloc r c = None)
            \<longrightarrow> (\<exists>v. shift alloc image_data (dx, dy) = Inr v \<and> length v = 784))
       \<and> (28 < \<bar>dx\<bar> \<or> 28 < \<bar>dy\<bar> \<longrightarrow> isl (shift alloc image_data (dx, dy)))"
  using shift_zero [OF assms, of alloc] shift_in_range [OF assms, of dx dy alloc]
    shift_out_of_range [of dx dy alloc image_data]
  by blast

theorem shift_identity_and_size_witness:
  "length (map int [0..<784]) = 784
   \<and> shift (grants_up_to 1000) (map int [0..<784]) (0, 0) = Inr (map int [0..<784])
   \<and> grants_up_to 1000 28 28 = None
   \<and> map_sum id length (shift (grants_up_to 1000) (map int [0..<784]) (3, - 2)) = Inr 784
   \<and> isl (shift (grants_up_to 1000) (map int [0..<784]) (3, - 29))"
  using shift_identity_and_size [of "map int [0..<784]" "grants_up_to 1000" 3 "- 2"]
        shift_identity_and_size [of "map int [0..<784]" "grants_up_to 1000" 3 "- 29"]
        grants_up_to_room [of 1000]
  by (auto simp: grants_up_to_def)

text \<open>
  The claim as first stated, a vector of 784 elements for every direction, fails for a
  shift beyond the width of the image: 29 columns of zeros are put before an empty slice,
  the array has shape \<open>(28, 29)\<close>, and \<open>reshape(784)\<close> raises.
\<close>

theorem shift_wide_direction_raises:
  "shift (grants_up_to 1000) (replicate 784 (0::int)) (29, 0) = Inl ValueError"
  by code_simp

section \<open>Properties of the learning-rate ramp\<close>

lemma argmin_scan_less:
  "best_index < i \<Longrightarrow> argmin_scan lt best best_index i xs < i + length xs"
proof (induction xs arbitrary: best best_index i)
  case Nil
  then show ?case by simp
next
  case (Cons x xs)
  from Cons.IH [of i "Suc i" x] have "argmin_scan lt x i (Suc i) xs < Suc i + length xs"
    by simp
  moreover from Cons.IH [of best_index "Suc i" best] Cons.prems
  have "argmin_scan lt best best_index (Suc i) xs < Suc i + length xs"
    by simp
  ultimately show ?case by simp
qed

lemma np_argmin_in_range:
  "xs \<noteq> [] \<Longrightarrow> \<exists>i. np_argmin lt xs = Inr i \<and> i < length xs"
  using argmin_scan_less [of 0 1 lt]
  by (cases xs) (auto simp: np_argmin_def)

lemma on_train_batch_end_fields:
  assumes "on_train_batch_end ops cb m l = (cb1, m1)"
  shows "cb1 = cb\<lparr>learning_rates := learning_rates cb @ [fmul ops (learning_rate m) (factor cb)],
                   losses := losses cb @ [l]\<rparr>"
    and "learning_rate m1 = store32 ops (fmul ops (learning_rate m) (factor cb))"
    and "stop_training m1
           = (exceeds ops (fmul ops (learning_rate m) (factor cb)) (end_lr cb) \<or> stop_training m)"
  using assms by (auto simp: on_train_batch_end_def Let_def split: if_splits)

text \<open>
  One run of the loop from a model whose flag is clear: the rates it adds, each the
  product of the rate held by the optimizer and the factor, and the flag at its end.
\<close>

lemma train_batches_trace:
  assumes "\<not> stop_training m"
  shows "\<exists>new. learning_rates (fst (train_batches ops cb m ls)) = learning_rates cb @ new
     \<and> losses (fst (train_batches ops cb m ls)) = losses cb @ take (length new) ls
     \<and> factor (fst (train_batches ops cb m ls)) = factor cb
     \<and> end_lr (fst (train_batches ops cb m ls)) = end_lr cb
     \<and> starting_lr (fst (train_batches ops cb m ls)) = starting_lr cb
     \<and> length new \<le> length ls
     \<and> (\<forall>t<length new. new ! t
           = fmul ops (if t = 0 then learning_rate m else store32 ops (new ! (t - 1)))
               (factor cb))
     \<and> (\<forall>t<length new. exceeds ops (new ! t) (end_lr cb)
           \<longleftrightarrow> Suc t = length new \<and> stop_training (snd (train_batches ops cb m ls)))
     \<and> (stop_training (snd (train_batches ops cb m ls)) \<longrightarrow> new \<noteq> [])
     \<and> (\<not> stop_training (snd (train_batches ops cb m ls)) \<longrightarrow> length new = length ls)"
  using assms
proof (induction ls arbitrary: cb m)
  case Nil
  then show ?case by simp
next
  case (Cons l ls)
  let ?lr = "fmul ops (learning_rate m) (factor cb)"
  obtain cb1 m1 where step: "on_train_batch_end ops cb m l = (cb1, m1)" by fastforce
  note f = on_train_batch_end_fields [OF step]
  show ?case
  proof (cases "exceeds ops ?lr (end_lr cb)")
    case True
    with f(3) have "stop_training m1" by simp
    with step have run: "train_batches ops cb m (l # ls) = (cb1, m1)" by simp
    show ?thesis
      apply (rule exI [of _ "[?lr]"])
      unfolding run
      using True \<open>stop_training m1\<close>
      by (simp add: f(1))
  next
    case False
    with f(3) Cons.prems have clear: "\<not> stop_training m1" by simp
    with step have run: "train_batches ops cb m (l # ls) = train_batches ops cb1 m1 ls" by simp
    from Cons.IH [OF clear, of cb1] obtain new where
      n1: "learning_rates (fst (train_batches ops cb1 m1 ls)) = learning_rates cb1 @ new"
      and n2: "losses (fst (train_batches ops cb1 m1 ls)) = losses cb1 @ take (length new) ls"
      and n3: "factor (fst (train_batches ops cb1 m1 ls)) = factor cb1"
        "end_lr (fst (train_batches ops cb1 m1 ls)) = end_lr cb1"
        "starting_lr (fst (train_batches ops cb1 m1 ls)) = starting_lr cb1"
      and n4: "length new \<le> length ls"
      and n5: "\<forall>t<length new. new ! t
           = fmul ops (if t = 0 then learning_rate m1 else store32 ops (new ! (t - 1)))
               (factor cb1)"
      and n6: "\<forall>t<length new. exceeds ops (new ! t) (end_lr cb1)
           \<longleftrightarrow> Suc t = length new \<and> stop_training (snd (train_batches ops cb1 m1 ls))"
      and n7: "stop_training (snd (train_batches ops cb1 m1 ls)) \<longrightarrow> new \<noteq> []"
      and n8: "\<not> stop_training (snd (train_batches ops cb1 m1 ls)) \<longrightarrow> length new = length ls"
      by blast
    have same: "factor cb1 = factor cb" "end_lr cb1 = end_lr cb" "starting_lr cb1 = starting_lr cb"
      "learning_rates cb1 = learning_rates cb @ [?lr]" "losses cb1 = losses cb @ [l]"
      by (simp_all add: f(1))
    have rate: "(?lr # new) ! t
           = fmul ops (if t = 0 then learning_rate m else store32 ops ((?lr # new) ! (t - 1)))
               (factor cb)" if "t < length (?lr # new)" for t
    proof (cases t)
      case 0
      then show ?thesis by simp
    next
      case (Suc k)
      with that have "k < length new" by simp
      with n5 have "new ! k
           = fmul ops (if k = 0 then learning_rate m1 else store32 ops (new ! (k - 1)))
               (factor cb1)" by blast
      then show ?thesis
        using Suc by (cases k) (simp_all add: f(2) same)
    qed
    have flag: "exceeds ops ((?lr # new) ! t) (end_lr cb)
           \<longleftrightarrow> Suc t = length (?lr # new)
               \<and> stop_training (snd (train_batches ops cb1 m1 ls))"
      if "t < length (?lr # new)" for t
    proof (cases t)
      case 0
      with False n7 show ?thesis by auto
    next
      case (Suc k)
      with that have "k < length new" by simp
      with n6 show ?thesis using Suc by (simp add: same)
    qed
    show ?thesis
      apply (rule exI [of _ "?lr # new"])
      unfolding run
      using n1 n2 n3 n4 n7 n8 rate flag
      by (simp add: same)
  qed
qed

lemma fit_trace:
  "learning_rates (fst (fit ops cb model ls)) = learning_rates cb @ recorded ops cb model ls"
  "length (recorded ops cb model ls) \<le> length ls"
  "t < length (recorded ops cb model ls) \<Longrightarrow>
     recorded ops cb model ls ! t
       = fmul ops (store32 ops (if t = 0 then starting_lr cb else recorded ops cb model ls ! (t - 1)))
           (factor cb)"
  "t < length (recorded ops cb model ls) \<Longrightarrow>
     exceeds ops (recorded ops cb model ls ! t) (end_lr cb)
       \<longleftrightarrow> Suc t = length (recorded ops cb model ls) \<and> stopped ops cb model ls"
  "stopped ops cb model ls \<Longrightarrow> recorded ops cb model ls \<noteq> []"
  "\<not> stopped ops cb model ls \<Longrightarrow> length (recorded ops cb model ls) = length ls"
proof -
  let ?m = "on_train_begin ops cb (model\<lparr>stop_training := False\<rparr>)"
  have clear: "\<not> stop_training ?m" and rate: "learning_rate ?m = store32 ops (starting_lr cb)"
    by (simp_all add: on_train_begin_def)
  from train_batches_trace [OF clear, of ops cb ls] obtain new where
    n1: "learning_rates (fst (train_batches ops cb ?m ls)) = learning_rates cb @ new"
    and n4: "length new \<le> length ls"
    and n5: "\<forall>t<length new. new ! t
         = fmul ops (if t = 0 then learning_rate ?m else store32 ops (new ! (t - 1))) (factor cb)"
    and n6: "\<forall>t<length new. exceeds ops (new ! t) (end_lr cb)
         \<longleftrightarrow> Suc t = length new \<and> stop_training (snd (train_batches ops cb ?m ls))"
    and n7: "stop_training (snd (train_batches ops cb ?m ls)) \<longrightarrow> new \<noteq> []"
    and n8: "\<not> stop_training (snd (train_batches ops cb ?m ls)) \<longrightarrow> length new = length ls"
    by blast
  have new: "recorded ops cb model ls = new"
    by (simp add: recorded_def fit_def n1)
  have flag: "stopped ops cb model ls = stop_training (snd (train_batches ops cb ?m ls))"
    by (simp add: stopped_def fit_def)
  show "learning_rates (fst (fit ops cb model ls)) = learning_rates cb @ recorded ops cb model ls"
    unfolding new by (simp add: fit_def n1)
  show "length (recorded ops cb model ls) \<le> length ls"
    unfolding new by (rule n4)
  show "recorded ops cb model ls ! t
       = fmul ops (store32 ops (if t = 0 then starting_lr cb else recorded ops cb model ls ! (t - 1)))
           (factor cb)" if "t < length (recorded ops cb model ls)"
    using that n5 unfolding new rate by (cases "t = 0") auto
  show "exceeds ops (recorded ops cb model ls ! t) (end_lr cb)
       \<longleftrightarrow> Suc t = length (recorded ops cb model ls) \<and> stopped ops cb model ls"
    if "t < length (recorded ops cb model ls)"
    using that n6 unfolding new flag by blast
  show "recorded ops cb model ls \<noteq> []" if "stopped ops cb model ls"
    using that n7 unfolding new flag by blast
  show "length (recorded ops cb model ls) = length ls" if "\<not> stopped ops cb model ls"
    using that n8 unfolding new flag by blast
qed

text \<open>
  The variant with the report: it raises only when the rate exceeds \<open>end_lr\<close> while the
  list of losses is still empty, and otherwise does what the plain variant does.
\<close>

lemma minimum_loss_rate_ok:
  assumes "losses cb \<noteq> []" "length (learning_rates cb) = length (losses cb)"
  shows "\<exists>r. minimum_loss_rate ops cb = Inr r"
proof -
  from np_argmin_in_range [OF assms(1), of "loss_less ops"] obtain i where
    "np_argmin (loss_less ops) (losses cb) = Inr i" "i < length (losses cb)" by blast
  with assms(2) show ?thesis by (simp add: minimum_loss_rate_def)
qed

lemma minimum_loss_rate_empty:
  "losses cb = [] \<Longrightarrow> minimum_loss_rate ops cb = Inl ValueError"
  by (simp add: minimum_loss_rate_def np_argmin_def)

lemma on_train_batch_end_verbose_eq:
  assumes "length (learning_rates cb) = length (losses cb)"
  shows "on_train_batch_end_verbose ops cb m l
           = (if exceeds ops (fmul ops (learning_rate m) (factor cb)) (end_lr cb) \<and> losses cb = []
              then Inl ValueError else Inr (on_train_batch_end ops cb m l))"
proof (cases "losses cb = []")
  case True
  then show ?thesis
    by (simp add: on_train_batch_end_verbose_def on_train_batch_end_def Let_def
          minimum_loss_rate_empty)
next
  case False
  from minimum_loss_rate_ok [OF False assms, of ops] obtain r where
    "minimum_loss_rate ops cb = Inr r" ..
  with False show ?thesis
    by (simp add: on_train_batch_end_verbose_def on_train_batch_end_def Let_def)
qed

lemma train_batches_verbose_eq:
  assumes "length (learning_rates cb) = length (losses cb)" "\<not> stop_training m"
  shows "train_batches_verbose ops cb m ls
           = (if ls \<noteq> [] \<and> losses cb = []
                 \<and> exceeds ops (fmul ops (learning_rate m) (factor cb)) (end_lr cb)
              then Inl ValueError else Inr (train_batches ops cb m ls))"
  using assms
proof (induction ls arbitrary: cb m)
  case Nil
  then show ?case by simp
next
  case (Cons l ls)
  let ?lr = "fmul ops (learning_rate m) (factor cb)"
  obtain cb1 m1 where step: "on_train_batch_end ops cb m l = (cb1, m1)" by fastforce
  note f = on_train_batch_end_fields [OF step]
  note v = on_train_batch_end_verbose_eq [OF Cons.prems(1), of ops m l]
  show ?case
  proof (cases "exceeds ops ?lr (end_lr cb)")
    case True
    with f(3) have "stop_training m1" by simp
    with v step True show ?thesis by simp
  next
    case False
    with f(3) Cons.prems(2) have clear: "\<not> stop_training m1" by simp
    have lens: "length (learning_rates cb1) = length (losses cb1)" "losses cb1 \<noteq> []"
      using Cons.prems(1) by (simp_all add: f(1))
    from Cons.IH [OF lens(1) clear] lens(2)
    have "train_batches_verbose ops cb1 m1 ls = Inr (train_batches ops cb1 m1 ls)" by simp
    with v step False clear show ?thesis by simp
  qed
qed

lemma fit_verbose_eq:
  assumes "length (learning_rates cb) = length (losses cb)"
  shows "fit_verbose ops cb model ls
           = (if ls \<noteq> [] \<and> losses cb = []
                 \<and> exceeds ops (fmul ops (store32 ops (starting_lr cb)) (factor cb)) (end_lr cb)
              then Inl ValueError else Inr (fit ops cb model ls))"
  using train_batches_verbose_eq
          [OF assms, of "on_train_begin ops cb (model\<lparr>stop_training := False\<rparr>)" ops ls]
  by (simp add: fit_verbose_def fit_def on_train_begin_def)

lemma ExponentialLearningRate_init_fields:
  assumes "ExponentialLearningRate_init ops s e n = Inr cb"
  shows "\<exists>ratio exponent. fdiv ops e s = Inr ratio \<and> recip ops n = Inr exponent
           \<and> fpow ops ratio exponent = Inr (factor cb)"
    and "starting_lr cb = s" "end_lr cb = e" "learning_rates cb = []" "losses cb = []"
  using assms by (auto simp: ExponentialLearningRate_init_def split: sum.splits)

text \<open>
  In exact arithmetic a zero starting rate or a zero \<open>n_iter\<close> raises at construction,
  and a negative starting rate below a positive end rate never reaches the end rate.
\<close>

lemma init_zero_starting_lr:
  "ExponentialLearningRate_init exact_ops 0 e n = Inl ZeroDivisionError"
  by (simp add: ExponentialLearningRate_init_def exact_ops_def)

lemma init_zero_n_iter:
  "s \<noteq> 0 \<Longrightarrow> ExponentialLearningRate_init exact_ops s e 0 = Inl ZeroDivisionError"
  by (simp add: ExponentialLearningRate_init_def exact_ops_def)

lemma negative_starting_lr_never_stops:
  "ExponentialLearningRate_init exact_ops (- 1) 1 1
     = Inr \<lparr>factor = - 1, starting_lr = - 1, end_lr = 1, learning_rates = [], losses = []\<rparr>"
  "recorded exact_ops
       \<lparr>factor = - 1, starting_lr = - 1, end_lr = 1, learning_rates = [], losses = []\<rparr>
       \<lparr>learning_rate = 1 / 1024, stop_training = False\<rparr> [3, 2, 1, 1] = [1, - 1, 1, - 1]"
  "\<not> stopped exact_ops
       \<lparr>factor = - 1, starting_lr = - 1, end_lr = 1, learning_rates = [], losses = []\<rparr>
       \<lparr>learning_rate = 1 / 1024, stop_training = False\<rparr> [3, 2, 1, 1]"
  by (simp_all add: ExponentialLearningRate_init_def exact_ops_def exact_pow_def recorded_def
        stopped_def fit_def on_train_begin_def on_train_batch_end_def Let_def)

text \<open>
  The variant with the report raises when the first rate of a new callback already
  exceeds \<open>end_lr\<close>: the list of losses is empty then.
\<close>

lemma fit_verbose_first_batch_raises:
  "fit_verbose exact_ops
       \<lparr>factor = 4, starting_lr = 1, end_lr = 2, learning_rates = [], losses = []\<rparr>
       \<lparr>learning_rate = 1 / 1024, stop_training = False\<rparr> [3, 2, 1] = Inl ValueError"
  by (simp add: fit_verbose_eq exact_ops_def)

text \<open>
  C10 (as amended). For the callback constructed with \<open>(starting_lr, end_lr, n_iter)\<close>,
  whenever the construction succeeds, and whatever the floating-point operations round
  to: the factor is \<open>(end_lr / starting_lr) ** (1 / n_iter)\<close>; the learning rate recorded
  after a batch is the rate that the optimizer held before the batch (the starting rate
  as stored at the begin of training, afterwards the rate recorded for the batch before,
  as stored) multiplied by that same factor; and the flag \<open>stop_training\<close> is set on
  exactly the first batch whose updated rate exceeds \<open>end_lr\<close>: a recorded rate exceeds
  \<open>end_lr\<close> if and only if it is the last one recorded and the flag is set, and when the
  flag is not set every batch has been recorded. This holds for every run of \<open>fit\<close>, also
  one that is not the first. The variant that prints a report does the same, provided
  that the list of losses is not empty when the rate first exceeds \<open>end_lr\<close>. No bound on
  the number of recorded rates in terms of \<open>n_iter\<close> is part of the statement.
\<close>

theorem exponential_learning_rate_run:
  "(ExponentialLearningRate_init ops s e n = Inr cb \<longrightarrow>
      (\<exists>ratio exponent. fdiv ops e s = Inr ratio \<and> recip ops n = Inr exponent
          \<and> fpow ops ratio exponent = Inr (factor cb))
      \<and> starting_lr cb = s \<and> end_lr cb = e \<and> learning_rates cb = [] \<and> losses cb = [])
   \<and> learning_rates (fst (fit ops cb model batch_losses))
       = learning_rates cb @ recorded ops cb model batch_losses
   \<and> length (recorded ops cb model batch_losses) \<le> length batch_losses
   \<and> (t < length (recorded ops cb model batch_losses) \<longrightarrow>
        recorded ops cb model batch_losses ! t
          = fmul ops
              (store32 ops (if t = 0 then starting_lr cb
                            else recorded ops cb model batch_losses ! (t - 1)))
              (factor cb))
   \<and> (t < length (recorded ops cb model batch_losses) \<longrightarrow>
        (exceeds ops (recorded ops cb model batch_losses ! t) (end_lr cb)
           \<longleftrightarrow> Suc t = length (recorded ops cb model batch_losses)
               \<and> stopped ops cb model batch_losses))
   \<and> (stopped ops cb model batch_losses \<longrightarrow> recorded ops cb model batch_losses \<noteq> [])
   \<and> (\<not> stopped ops cb model batch_losses \<longrightarrow>
        length (recorded ops cb model batch_losses) = length batch_losses)
   \<and> (length (learning_rates cb) = length (losses cb)
        \<and> (losses cb \<noteq> [] \<or> batch_losses = []
             \<or> \<not> exceeds ops (fmul ops (store32 ops (starting_lr cb)) (factor cb)) (end_lr cb))
        \<longrightarrow> fit_verbose ops cb model batch_losses = Inr (fit ops cb model batch_losses))"
proof -
  have init: "ExponentialLearningRate_init ops s e n = Inr cb \<longrightarrow>
      (\<exists>ratio exponent. fdiv ops e s = Inr ratio \<and> recip ops n = Inr exponent
          \<and> fpow ops ratio exponent = Inr (factor cb))
      \<and> starting_lr cb = s \<and> end_lr cb = e \<and> learning_rates cb = [] \<and> losses cb = []"
    using ExponentialLearningRate_init_fields [of ops s e n cb] by blast
  have verbose: "length (learning_rates cb) = length (losses cb)
        \<and> (losses cb \<noteq> [] \<or> batch_losses = []
             \<or> \<not> exceeds ops (fmul ops (store32 ops (starting_lr cb)) (factor cb)) (end_lr cb))
        \<longrightarrow> fit_verbose ops cb model batch_losses = Inr (fit ops cb model batch_losses)"
    using fit_verbose_eq [of cb ops model batch_losses] by auto
  note run = fit_trace [where ops = ops and cb = cb and model = model and ls = batch_losses]
  from init verbose run(1) run(2) run(3) [of t] run(4) [of t] run(5) run(6)
  show ?thesis by blast
qed

theorem exponential_learning_rate_run_witness:
  "ExponentialLearningRate_init exact_ops 1 4 1
     = Inr \<lparr>factor = 4, starting_lr = 1, end_lr = 4, learning_rates = [], losses = []\<rparr>
   \<and> fpow exact_ops 4 1 = Inr 4
   \<and> recorded exact_ops
       \<lparr>factor = 4, starting_lr = 1, end_lr = 4, learning_rates = [], losses = []\<rparr>
       \<lparr>learning_rate = 1 / 1024, stop_training = True\<rparr> [3, 2, 1] = [4, 16]
   \<and> (1::nat) < length [4, 16 :: real]
   \<and> exceeds exact_ops 16 4
   \<and> stopped exact_ops
       \<lparr>factor = 4, starting_lr = 1, end_lr = 4, learning_rates = [], losses = []\<rparr>
       \<lparr>learning_rate = 1 / 1024, stop_training = True\<rparr> [3, 2, 1]
   \<and> fit_verbose exact_ops
       \<lparr>factor = 4, starting_lr = 1, end_lr = 4, learning_rates = [], losses = []\<rparr>
       \<lparr>learning_rate = 1 / 1024, stop_training = True\<rparr> [3, 2, 1]
     = Inr (fit exact_ops
       \<lparr>factor = 4, starting_lr = 1, end_lr = 4, learning_rates = [], losses = []\<rparr>
       \<lparr>learning_rate = 1 / 1024, stop_training = True\<rparr> [3, 2, 1])"
proof -
  let ?cb = "\<lparr>factor = 4, starting_lr = 1, end_lr = 4, learning_rates = [], losses = []\<rparr>
               :: real ExponentialLearningRate"
  let ?m = "\<lparr>learning_rate = 1 / 1024, stop_training = True\<rparr> :: real keras_model"
  have init: "ExponentialLearningRate_init exact_ops 1 4 1 = Inr ?cb"
    by (simp add: ExponentialLearningRate_init_def exact_ops_def exact_pow_def)
  have pow: "fpow exact_ops 4 1 = Inr 4"
    by (simp add: exact_ops_def exact_pow_def)
  have rec: "recorded exact_ops ?cb ?m [3, 2, 1] = [4, 16]"
    by (simp add: recorded_def fit_def on_train_begin_def on_train_batch_end_def exact_ops_def
          Let_def)
  have first: "\<not> exceeds exact_ops (fmul exact_ops (store32 exact_ops (starting_lr ?cb)) (factor ?cb))
                  (end_lr ?cb)"
    by (simp add: exact_ops_def)
  from exponential_learning_rate_run [of exact_ops 1 4 1 ?cb ?m "[3, 2, 1]" 1] init pow rec first
  show ?thesis by (simp add: exact_ops_def)
qed

text \<open>
  The claim as first stated asks only for \<open>starting_lr < end_lr\<close> and bounds the
  number of recorded rates by \<open>n_iter + 1\<close>. With \<open>n_iter = -1\<close> the factor is
  \<open>(2 / 1) ** (1 / -1) = 0.5\<close>: the rates fall, \<open>end_lr\<close> is never exceeded, the flag is
  never set, and three rates are recorded where the claim allows \<open>n_iter + 1 = 0\<close>.
  Every number in this run is a power of two, so the floating-point operations return
  exactly these values.
\<close>

theorem negative_n_iter_never_stops:
  "ExponentialLearningRate_init exact_ops 1 2 (- 1)
     = Inr \<lparr>factor = 1 / 2, starting_lr = 1, end_lr = 2, learning_rates = [], losses = []\<rparr>
   \<and> recorded exact_ops
         \<lparr>factor = 1 / 2, starting_lr = 1, end_lr = 2, learning_rates = [], losses = []\<rparr>
         \<lparr>learning_rate = 1 / 1024, stop_training = False\<rparr> [3, 2, 1] = [1 / 2, 1 / 4, 1 / 8]
   \<and> \<not> stopped exact_ops
         \<lparr>factor = 1 / 2, starting_lr = 1, end_lr = 2, learning_rates = [], losses = []\<rparr>
         \<lparr>learning_rate = 1 / 1024, stop_training = False\<rparr> [3, 2, 1]"
  by (simp add: ExponentialLearningRate_init_def exact_ops_def exact_pow_def recorded_def
        stopped_def fit_def on_train_begin_def on_train_batch_end_def Let_def powr_minus)

end
